theory Spec2Isabelle
  imports Main "HOL-Library.Sublist"
begin

section \<open>The statement diagnostics view (diagnosticsView.tsx)\<close>

text \<open>
  The view is a React component: it reads its properties, keeps one piece of local state
  (the sort setting) and hands every side effect to a callback of its properties. The
  embedding keeps that shape. What a render returns is a value (a small tree of the
  controls the JSX builds); an event handler is a function on the outside world \<open>'w\<close>,
  which is whatever the callbacks of the parent act on. A callback is foreign code that
  may throw: it returns \<open>Inl e\<close> for an exception \<open>e\<close> and \<open>Inr w\<close> for the world it
  leaves behind, and a handler of the view stops at the first exception, as the
  JavaScript does. Styling properties (class names, sizes, intents, icons) and the fixed
  list of options of the time-scale dropdown carry no behaviour of the view and are left
  out.
\<close>

subsection \<open>Data\<close>

type_synonym ('e, 'w) effect = "'w \<Rightarrow> 'e + 'w"

text \<open>
  Modelled from the spec: the declaration of \<open>StatementDiagnosticsReport\<close> is in the api
  module, outside the excerpt. The specification lists a server-assigned identifier, the
  fingerprint of the owning statement, a completion flag, a request timestamp and, once
  the report is completed, a bundle identifier; the field names other than the first are
  the ones the view reads. The bundle identifier is an option, since a template literal
  prints an absent one as \<open>undefined\<close>, and the request timestamp, a moment, is held as
  milliseconds since the epoch.

  Objects are structurally typed: the rows handed to the table are
  \<open>{...diagnosticsReport, key: idx}\<close>, report objects with one more property. The field
  \<open>key\<close> is that property; it is \<open>None\<close> on an object that does not have it.
\<close>

record StatementDiagnosticsReport =
  id_str :: string
  statement_fingerprint :: string
  completed :: bool
  statement_diagnostics_id :: "string option"
  requested_at :: int
  key :: "nat option"

record SortSetting =
  ascending :: bool
  columnTitle :: string

record DiagnosticsViewState =
  sortSetting :: SortSetting

record ('e, 'w) ActivateDiagnosticsModalRef =
  showModalFor :: "string option \<Rightarrow> ('e, 'w) effect"

record ('e, 'w) RefObject =
  current :: "('e, 'w) ActivateDiagnosticsModalRef option"

text \<open>
  The properties. A property declared with \<open>?\<close> is an option, \<open>None\<close> when the parent
  did not pass it. \<open>activateDiagnosticsRef\<close> is declared as required, but every use goes
  through \<open>?.\<close>, so the reference itself is an option as well.
\<close>

record ('ts, 'e, 'w) DiagnosticsViewProps =
  statementFingerprint :: "string option"
  hasData :: bool
  diagnosticsReports :: "StatementDiagnosticsReport list"
  showDiagnosticsViewLink :: "bool option"
  activateDiagnosticsRef :: "('e, 'w) RefObject option"
  currentScale :: 'ts
  dismissAlertMessage :: "('e, 'w) effect"
  onDownloadDiagnosticBundleClick :: "(string \<Rightarrow> ('e, 'w) effect) option"
  onDiagnosticCancelRequestClick :: "(StatementDiagnosticsReport \<Rightarrow> ('e, 'w) effect) option"
  onSortingChange :: "(string \<Rightarrow> string \<Rightarrow> bool \<Rightarrow> ('e, 'w) effect) option"
  onChangeTimeScale :: "'ts \<Rightarrow> ('e, 'w) effect"

text \<open>
  What the module imports from the rest of the repository and from moment, as
  parameters: the base path returned by \<open>getBasePath()\<close>, the status derived by
  \<open>getDiagnosticsStatus\<close>, the text \<open>moment.utc(t).format(DATE_FORMAT_24_UTC)\<close>, and the
  window a time scale stands for (used by \<open>filterByTimeScale\<close> below).
\<close>

record 'ts Imports =
  getBasePath :: string
  getDiagnosticsStatus :: "StatementDiagnosticsReport \<Rightarrow> string"
  formatUtc :: "int \<Rightarrow> string"
  inWindow :: "'ts \<Rightarrow> int \<Rightarrow> bool"

subsection \<open>What a render produces\<close>

datatype sort_value = Num int | Str string

datatype ('e, 'w) cell_content =
    FormattedDate string
  | DiagnosticStatusBadge string bool
  | DownloadBundleButton string "('e, 'w) effect"
  | CancelRequestButton "('e, 'w) effect"

record ('e, 'w) ColumnDescriptor =
  name :: string
  title :: string
  cell :: "StatementDiagnosticsReport \<Rightarrow> ('e, 'w) cell_content"
  sort_key :: "StatementDiagnosticsReport \<Rightarrow> sort_value"

record ('e, 'w) Button =
  label :: string
  disabled :: bool
  onClick :: "('e, 'w) effect"

record ('ts, 'e, 'w) TimeScaleDropdown =
  shownScale :: 'ts
  setTimeScale :: "'ts \<Rightarrow> ('e, 'w) effect"

record ('e, 'w) EmptyTable =
  emptyTitle :: string
  emptyButton :: "('e, 'w) Button"
  emptyLink :: "string option"

record ('e, 'w) SortedTable =
  tableData :: "StatementDiagnosticsReport list"
  tableColumns :: "('e, 'w) ColumnDescriptor list"
  tableSortSetting :: SortSetting
  onChangeSortSetting ::
    "SortSetting \<Rightarrow> ('e, DiagnosticsViewState \<times> 'w) effect"

datatype ('ts, 'e, 'w) rendered =
    EmptyState "('ts, 'e, 'w) TimeScaleDropdown" "('e, 'w) EmptyTable"
  | Populated "('ts, 'e, 'w) TimeScaleDropdown" "('e, 'w) Button option"
      "('e, 'w) SortedTable" "string option"

subsection \<open>JavaScript conversions\<close>

text \<open>\<open>String(b)\<close> of a boolean.\<close>

definition js_String :: "bool \<Rightarrow> string" where
  "js_String b = (if b then ''true'' else ''false'')"

text \<open>\<open>${x}\<close> of a string that may be undefined.\<close>

fun js_template :: "string option \<Rightarrow> string" where
  "js_template None = ''undefined''"
| "js_template (Some s) = s"

text \<open>A value used as a condition: \<open>undefined\<close> is falsy.\<close>

fun truthy :: "bool option \<Rightarrow> bool" where
  "truthy None = False"
| "truthy (Some b) = b"

subsection \<open>Time-scale filtering\<close>

text \<open>
  Modelled from the spec: \<open>filterByTimeScale\<close> lives in diagnosticsUtils, which is not
  part of the excerpt. The specification gives it as: select only reports whose request
  timestamp falls inside the window implied by the current time scale; filtering is pure
  and order-preserving.
\<close>

definition filterByTimeScale ::
  "'ts Imports \<Rightarrow> StatementDiagnosticsReport list \<Rightarrow> 'ts \<Rightarrow> StatementDiagnosticsReport list"
where
  "filterByTimeScale imp diagnostics ts =
     filter (\<lambda>diag. inWindow imp ts (requested_at diag)) diagnostics"

subsection \<open>The activation control\<close>

text \<open>
  \<open>activateDiagnosticsRef?.current?.showModalFor(statementFingerprint)\<close>, the click
  handler of both activation buttons.
\<close>

definition activate_onClick :: "('ts, 'e, 'w) DiagnosticsViewProps \<Rightarrow> ('e, 'w) effect" where
  "activate_onClick props w =
     (case activateDiagnosticsRef props of
        None \<Rightarrow> Inr w
      | Some r \<Rightarrow>
          (case current r of
             None \<Rightarrow> Inr w
           | Some m \<Rightarrow> showModalFor m (statementFingerprint props) w))"

definition EmptyDiagnosticsView ::
  "('ts, 'e, 'w) DiagnosticsViewProps \<Rightarrow> ('e, 'w) EmptyTable"
where
  "EmptyDiagnosticsView props =
     \<lparr> emptyTitle = ''Activate statement diagnostics'',
       emptyButton =
         \<lparr> label = ''Activate Diagnostics'', disabled = False,
           onClick = activate_onClick props \<rparr>,
       emptyLink =
         (if truthy (showDiagnosticsViewLink props)
          then Some ''/reports/statements/diagnosticshistory'' else None) \<rparr>"

subsection \<open>The columns\<close>

text \<open>
  The click handlers of the two row actions:
  \<open>this.props.onX && this.props.onX(argument)\<close>.
\<close>

definition download_onClick ::
  "('ts, 'e, 'w) DiagnosticsViewProps \<Rightarrow> StatementDiagnosticsReport \<Rightarrow> ('e, 'w) effect"
where
  "download_onClick props diagnostic w =
     (case onDownloadDiagnosticBundleClick props of
        None \<Rightarrow> Inr w
      | Some f \<Rightarrow> f (statement_fingerprint diagnostic) w)"

definition cancel_onClick ::
  "('ts, 'e, 'w) DiagnosticsViewProps \<Rightarrow> StatementDiagnosticsReport \<Rightarrow> ('e, 'w) effect"
where
  "cancel_onClick props diagnostic w =
     (case onDiagnosticCancelRequestClick props of
        None \<Rightarrow> Inr w
      | Some f \<Rightarrow> f diagnostic w)"

definition activatedOn_cell ::
  "'ts Imports \<Rightarrow> StatementDiagnosticsReport \<Rightarrow> ('e, 'w) cell_content"
where
  "activatedOn_cell imp diagnostic = FormattedDate (formatUtc imp (requested_at diagnostic))"

text \<open>\<open>moment(t).unix()\<close>: whole seconds since the epoch, rounded down.\<close>

definition activatedOn_sort :: "StatementDiagnosticsReport \<Rightarrow> sort_value" where
  "activatedOn_sort diagnostic = Num (requested_at diagnostic div 1000)"

definition status_cell ::
  "'ts Imports \<Rightarrow> StatementDiagnosticsReport \<Rightarrow> ('e, 'w) cell_content"
where
  "status_cell imp diagnostic =
     (let status = getDiagnosticsStatus imp diagnostic
      in DiagnosticStatusBadge status (status \<noteq> ''READY''))"

definition status_sort :: "StatementDiagnosticsReport \<Rightarrow> sort_value" where
  "status_sort diagnostic = Str (js_String (completed diagnostic))"

definition actions_cell ::
  "'ts Imports \<Rightarrow> ('ts, 'e, 'w) DiagnosticsViewProps \<Rightarrow> StatementDiagnosticsReport
     \<Rightarrow> ('e, 'w) cell_content"
where
  "actions_cell imp props diagnostic =
     (if completed diagnostic
      then DownloadBundleButton
             (getBasePath imp @ ''/_admin/v1/stmtbundle/''
                @ js_template (statement_diagnostics_id diagnostic))
             (download_onClick props diagnostic)
      else CancelRequestButton (cancel_onClick props diagnostic))"

definition actions_sort :: "StatementDiagnosticsReport \<Rightarrow> sort_value" where
  "actions_sort diagnostic = Str (js_String (completed diagnostic))"

definition DiagnosticsView_columns ::
  "'ts Imports \<Rightarrow> ('ts, 'e, 'w) DiagnosticsViewProps \<Rightarrow> ('e, 'w) ColumnDescriptor list"
where
  "DiagnosticsView_columns imp props =
     [ \<lparr> name = ''activatedOn'', title = ''Activated on'',
         cell = activatedOn_cell imp, sort_key = activatedOn_sort \<rparr>,
       \<lparr> name = ''status'', title = ''Status'',
         cell = status_cell imp, sort_key = status_sort \<rparr>,
       \<lparr> name = ''actions'', title = '''',
         cell = actions_cell imp props, sort_key = actions_sort \<rparr> ]"

subsection \<open>The component\<close>

definition DiagnosticsView_constructor :: DiagnosticsViewState where
  "DiagnosticsView_constructor =
     \<lparr> sortSetting = \<lparr> ascending = True, columnTitle = ''activatedOn'' \<rparr> \<rparr>"

definition DiagnosticsView_componentWillUnmount ::
  "('ts, 'e, 'w) DiagnosticsViewProps \<Rightarrow> ('e, DiagnosticsViewState \<times> 'w) effect"
where
  "DiagnosticsView_componentWillUnmount props = (\<lambda>(st, w).
     (case dismissAlertMessage props w of
        Inl e \<Rightarrow> Inl e
      | Inr w' \<Rightarrow> Inr (st, w')))"

text \<open>
  The sort handler: the callback of the parent first, when there is one, then
  \<open>setState\<close>. An exception of the callback leaves the handler before the state is set.
\<close>

definition DiagnosticsView_onSortingChange ::
  "('ts, 'e, 'w) DiagnosticsViewProps \<Rightarrow> SortSetting
     \<Rightarrow> ('e, DiagnosticsViewState \<times> 'w) effect"
where
  "DiagnosticsView_onSortingChange props ss = (\<lambda>(st, w).
     (case (case onSortingChange props of
              None \<Rightarrow> Inr w
            | Some f \<Rightarrow> f ''Diagnostics'' (columnTitle ss) (ascending ss) w) of
        Inl e \<Rightarrow> Inl e
      | Inr w' \<Rightarrow>
          Inr (st\<lparr> sortSetting :=
                     \<lparr> ascending = ascending ss, columnTitle = columnTitle ss \<rparr> \<rparr>, w')))"

definition readyToRequestDiagnostics :: "StatementDiagnosticsReport list \<Rightarrow> bool" where
  "readyToRequestDiagnostics reports = list_all completed reports"

text \<open>
  \<open>diagnosticsReports.map((diagnosticsReport, idx) => ({...diagnosticsReport, key: idx}))\<close>,
  then the filter.
\<close>

definition dataSource ::
  "'ts Imports \<Rightarrow> StatementDiagnosticsReport list \<Rightarrow> 'ts \<Rightarrow> StatementDiagnosticsReport list"
where
  "dataSource imp reports ts =
     filterByTimeScale imp
       (map (\<lambda>(idx, diagnosticsReport). diagnosticsReport\<lparr> key := Some idx \<rparr>)
          (enumerate 0 reports))
       ts"

definition DiagnosticsView_render ::
  "'ts Imports \<Rightarrow> ('ts, 'e, 'w) DiagnosticsViewProps \<Rightarrow> DiagnosticsViewState
     \<Rightarrow> ('ts, 'e, 'w) rendered"
where
  "DiagnosticsView_render imp props st =
     (let ready = readyToRequestDiagnostics (diagnosticsReports props);
          rows = dataSource imp (diagnosticsReports props) (currentScale props);
          dropdown = \<lparr> shownScale = currentScale props,
                       setTimeScale = onChangeTimeScale props \<rparr>
      in if \<not> hasData props
         then EmptyState dropdown (EmptyDiagnosticsView props)
         else Populated dropdown
                (if ready
                 then Some \<lparr> label = ''Activate diagnostics'', disabled = \<not> ready,
                             onClick = activate_onClick props \<rparr>
                 else None)
                \<lparr> tableData = rows,
                  tableColumns = DiagnosticsView_columns imp props,
                  tableSortSetting = sortSetting st,
                  onChangeSortSetting = DiagnosticsView_onSortingChange props \<rparr>
                (if truthy (showDiagnosticsViewLink props)
                 then Some ''/reports/statements/diagnosticshistory'' else None))"

subsection \<open>Reading a render\<close>

text \<open>
  What a user, or a test, does with a render: find the table, its rows and its columns,
  find the activation button, press the control of a cell. A cell without a control
  ignores the click.
\<close>

fun table_of :: "('ts, 'e, 'w) rendered \<Rightarrow> ('e, 'w) SortedTable option" where
  "table_of (EmptyState dropdown view) = None"
| "table_of (Populated dropdown button table link) = Some table"

fun rows_of :: "('ts, 'e, 'w) rendered \<Rightarrow> StatementDiagnosticsReport list" where
  "rows_of (EmptyState dropdown view) = []"
| "rows_of (Populated dropdown button table link) = tableData table"

fun activate_button_of :: "('ts, 'e, 'w) rendered \<Rightarrow> ('e, 'w) Button option" where
  "activate_button_of (EmptyState dropdown view) = Some (emptyButton view)"
| "activate_button_of (Populated dropdown button table link) = button"

fun href_of :: "('e, 'w) cell_content \<Rightarrow> string option" where
  "href_of (DownloadBundleButton href h) = Some href"
| "href_of other = None"

fun click_cell :: "('e, 'w) cell_content \<Rightarrow> ('e, 'w) effect" where
  "click_cell (DownloadBundleButton href h) w = h w"
| "click_cell (CancelRequestButton h) w = h w"
| "click_cell other w = Inr w"

text \<open>A report object as the properties supply it has no \<open>key\<close>.\<close>

definition withoutKey :: "StatementDiagnosticsReport \<Rightarrow> StatementDiagnosticsReport" where
  "withoutKey r = r\<lparr> key := None \<rparr>"

subsection \<open>Sample inputs\<close>

text \<open>
  A parent that records every call it receives: the world is the list of calls so far,
  and each callback appends its own call with the arguments it was given. The time scale
  of the samples is a closed interval of instants.
\<close>

datatype call =
    DismissAlertMessage
  | DownloadDiagnosticBundleClick string
  | DiagnosticCancelRequestClick StatementDiagnosticsReport
  | SortingChange string string bool
  | ChangeTimeScale "int \<times> int"
  | ShowModalFor "string option"

definition record_call :: "call \<Rightarrow> (unit, call list) effect" where
  "record_call c w = Inr (w @ [c])"

definition sample_imports :: "(int \<times> int) Imports" where
  "sample_imports =
     \<lparr> getBasePath = ''/base'',
       getDiagnosticsStatus = (\<lambda>d. if completed d then ''READY'' else ''WAITING''),
       formatUtc = (\<lambda>t. ''date''),
       inWindow = (\<lambda>(lo, hi) t. lo \<le> t \<and> t \<le> hi) \<rparr>"

definition recording_props ::
  "bool \<Rightarrow> StatementDiagnosticsReport list \<Rightarrow> (int \<times> int, unit, call list) DiagnosticsViewProps"
where
  "recording_props has reports =
     \<lparr> statementFingerprint = Some ''SELECT _'',
       hasData = has,
       diagnosticsReports = reports,
       showDiagnosticsViewLink = Some True,
       activateDiagnosticsRef =
         Some \<lparr> current = Some \<lparr> showModalFor = (\<lambda>fp. record_call (ShowModalFor fp)) \<rparr> \<rparr>,
       currentScale = (0, 100),
       dismissAlertMessage = record_call DismissAlertMessage,
       onDownloadDiagnosticBundleClick =
         Some (\<lambda>fp. record_call (DownloadDiagnosticBundleClick fp)),
       onDiagnosticCancelRequestClick =
         Some (\<lambda>r. record_call (DiagnosticCancelRequestClick r)),
       onSortingChange = Some (\<lambda>n t a. record_call (SortingChange n t a)),
       onChangeTimeScale = (\<lambda>ts. record_call (ChangeTimeScale ts)) \<rparr>"

text \<open>The same parent without any of the optional callbacks and without a reference.\<close>

definition silent_props ::
  "bool \<Rightarrow> StatementDiagnosticsReport list \<Rightarrow> (int \<times> int, unit, call list) DiagnosticsViewProps"
where
  "silent_props has reports =
     (recording_props has reports)
       \<lparr> activateDiagnosticsRef := None,
         onDownloadDiagnosticBundleClick := None,
         onDiagnosticCancelRequestClick := None,
         onSortingChange := None \<rparr>"

definition completed_report :: StatementDiagnosticsReport where
  "completed_report =
     \<lparr> id_str = ''7'', statement_fingerprint = ''SELECT _'', completed = True,
       statement_diagnostics_id = Some ''42'', requested_at = 10, key = None \<rparr>"

definition pending_report :: StatementDiagnosticsReport where
  "pending_report =
     \<lparr> id_str = ''8'', statement_fingerprint = ''SELECT _'', completed = False,
       statement_diagnostics_id = None, requested_at = 20, key = None \<rparr>"

definition old_report :: StatementDiagnosticsReport where
  "old_report =
     \<lparr> id_str = ''5'', statement_fingerprint = ''SELECT _'', completed = False,
       statement_diagnostics_id = None, requested_at = - 500, key = None \<rparr>"

section \<open>Properties\<close>

subsection \<open>Sort keys\<close>

text \<open>
  C8. For every report the sort key of the Status column is the string form of the
  completion flag, \<open>true\<close> or \<open>false\<close>, whatever status \<open>getDiagnosticsStatus\<close>
  derives for it: two reports with the same flag have the same key. The sort key of the
  Actions column is the same value.
\<close>

theorem status_and_actions_sort_key:
  "name (DiagnosticsView_columns imp props ! 1) = ''status''
   \<and> name (DiagnosticsView_columns imp props ! 2) = ''actions''
   \<and> sort_key (DiagnosticsView_columns imp props ! 1) diagnostic
        = Str (js_String (completed diagnostic))
   \<and> sort_key (DiagnosticsView_columns imp props ! 2) diagnostic
        = sort_key (DiagnosticsView_columns imp props ! 1) diagnostic
   \<and> (completed diagnostic = completed other \<longrightarrow>
        sort_key (DiagnosticsView_columns imp props ! 1) diagnostic
          = sort_key (DiagnosticsView_columns imp props ! 1) other)"
  by (simp add: DiagnosticsView_columns_def status_sort_def actions_sort_def)

theorem status_and_actions_sort_key_witness:
  "completed pending_report = completed old_report
   \<and> sort_key (DiagnosticsView_columns sample_imports (recording_props True []) ! 1)
        pending_report = Str ''false''
   \<and> sort_key (DiagnosticsView_columns sample_imports (recording_props True []) ! 2)
        completed_report = Str ''true''
   \<and> sort_key (DiagnosticsView_columns sample_imports (recording_props True []) ! 1)
        pending_report
      = sort_key (DiagnosticsView_columns sample_imports (recording_props True []) ! 1)
          old_report"
  using status_and_actions_sort_key
    [of sample_imports "recording_props True []" pending_report old_report]
    status_and_actions_sort_key
    [of sample_imports "recording_props True []" completed_report completed_report]
  by (simp add: DiagnosticsView_columns_def status_sort_def actions_sort_def js_String_def
      pending_report_def old_report_def completed_report_def)

subsection \<open>Row actions: download\<close>

text \<open>
  C1. For every report whose completion flag is set, the Actions cell is a download
  control, and its target path is the base path, then \<open>/_admin/v1/stmtbundle/\<close>, then
  the bundle identifier as the template literal prints it. For the bundle identifier 42
  the path is the base path followed by \<open>/_admin/v1/stmtbundle/42\<close>.
\<close>

theorem download_target_path:
  assumes "completed diagnostic"
  shows "cell (DiagnosticsView_columns imp props ! 2) diagnostic
           = DownloadBundleButton
               (getBasePath imp @ ''/_admin/v1/stmtbundle/''
                  @ js_template (statement_diagnostics_id diagnostic))
               (download_onClick props diagnostic)
         \<and> (statement_diagnostics_id diagnostic = Some bundleId \<longrightarrow>
              href_of (cell (DiagnosticsView_columns imp props ! 2) diagnostic)
                = Some (getBasePath imp @ ''/_admin/v1/stmtbundle/'' @ bundleId))
         \<and> (statement_diagnostics_id diagnostic = Some ''42'' \<longrightarrow>
              href_of (cell (DiagnosticsView_columns imp props ! 2) diagnostic)
                = Some (getBasePath imp @ ''/_admin/v1/stmtbundle/42''))"
  using assms by (simp add: DiagnosticsView_columns_def actions_cell_def)

theorem download_target_path_witness:
  "completed completed_report
   \<and> statement_diagnostics_id completed_report = Some ''42''
   \<and> href_of (cell (DiagnosticsView_columns sample_imports
                      (recording_props True [completed_report]) ! 2) completed_report)
        = Some ''/base/_admin/v1/stmtbundle/42''"
  using download_target_path
    [of completed_report sample_imports "recording_props True [completed_report]" "''42''"]
  by (simp add: completed_report_def sample_imports_def)

subsection \<open>Unmounting\<close>

text \<open>
  C6. Unmounting the view runs the \<open>dismissAlertMessage\<close> callback on the world as it is,
  once, whatever the local state and whatever happened before; the result of the callback
  is the result of unmounting, and the local state is not touched. With a parent that
  records its calls, exactly one call is added to the record, and it is the dismissal.
\<close>

theorem unmount_dismisses_alert_once:
  "DiagnosticsView_componentWillUnmount props (st, w)
     = (case dismissAlertMessage props w of Inl e \<Rightarrow> Inl e | Inr w' \<Rightarrow> Inr (st, w'))
   \<and> DiagnosticsView_componentWillUnmount (recording_props has reports) (st, calls)
     = Inr (st, calls @ [DismissAlertMessage])"
  by (simp add: DiagnosticsView_componentWillUnmount_def recording_props_def record_call_def)

theorem unmount_dismisses_alert_once_witness:
  "DiagnosticsView_componentWillUnmount (recording_props True [pending_report])
     (\<lparr> sortSetting = \<lparr> ascending = False, columnTitle = ''status'' \<rparr> \<rparr>,
      [SortingChange ''Diagnostics'' ''status'' False])
   = Inr (\<lparr> sortSetting = \<lparr> ascending = False, columnTitle = ''status'' \<rparr> \<rparr>,
          [SortingChange ''Diagnostics'' ''status'' False, DismissAlertMessage])"
  using unmount_dismisses_alert_once
    [of "recording_props True [pending_report]"
        "\<lparr> sortSetting = \<lparr> ascending = False, columnTitle = ''status'' \<rparr> \<rparr>"
        "[SortingChange ''Diagnostics'' ''status'' False]" True "[pending_report]"]
  by simp

subsection \<open>The two rendering modes\<close>

text \<open>
  C7. When \<open>hasData\<close> is false the render is the empty-state view, built from the
  properties by \<open>EmptyDiagnosticsView\<close>, and there is no table in it. The list of reports
  plays no part: replacing it by any other list gives the same render.
\<close>

theorem no_data_renders_empty_state:
  assumes "\<not> hasData props"
  shows "DiagnosticsView_render imp props st
           = EmptyState \<lparr> shownScale = currentScale props,
                          setTimeScale = onChangeTimeScale props \<rparr>
               (EmptyDiagnosticsView props)
         \<and> table_of (DiagnosticsView_render imp props st) = None
         \<and> DiagnosticsView_render imp (props\<lparr> diagnosticsReports := reports \<rparr>) st
           = DiagnosticsView_render imp props st"
  using assms
  by (simp add: DiagnosticsView_render_def EmptyDiagnosticsView_def activate_onClick_def
      Let_def fun_eq_iff split: option.split)

theorem no_data_renders_empty_state_witness:
  "\<not> hasData (recording_props False [completed_report, pending_report])
   \<and> table_of (DiagnosticsView_render sample_imports
        (recording_props False [completed_report, pending_report])
        DiagnosticsView_constructor) = None
   \<and> rows_of (DiagnosticsView_render sample_imports
        (recording_props False [completed_report, pending_report])
        DiagnosticsView_constructor) = []
   \<and> map_option label (activate_button_of (DiagnosticsView_render sample_imports
        (recording_props False [completed_report, pending_report])
        DiagnosticsView_constructor)) = Some ''Activate Diagnostics''"
  using no_data_renders_empty_state
    [of "recording_props False [completed_report, pending_report]" sample_imports
        DiagnosticsView_constructor "[]"]
  by (simp add: recording_props_def EmptyDiagnosticsView_def)

subsection \<open>Readiness\<close>

text \<open>
  C2. The readiness predicate is true exactly when every report of the list the
  properties supply has its completion flag set; it is true for the empty list. In the
  populated view the ``Activate diagnostics'' button is there exactly when the predicate
  holds on that whole list, whatever the time scale lets through to the table, and a
  button that is there is enabled.
\<close>

theorem ready_iff_all_completed:
  "(readyToRequestDiagnostics reports \<longleftrightarrow> (\<forall>r \<in> set reports. completed r))
   \<and> readyToRequestDiagnostics []
   \<and> (hasData props \<longrightarrow>
        activate_button_of (DiagnosticsView_render imp props st)
          = (if readyToRequestDiagnostics (diagnosticsReports props)
             then Some \<lparr> label = ''Activate diagnostics'', disabled = False,
                         onClick = activate_onClick props \<rparr>
             else None))"
  by (simp add: readyToRequestDiagnostics_def list_all_iff DiagnosticsView_render_def Let_def)

text \<open>
  A pending report outside the window hides the button although every row of the table
  is completed; without it the button is shown.
\<close>

theorem ready_iff_all_completed_witness:
  "hasData (recording_props True [completed_report, old_report])
   \<and> map completed (rows_of (DiagnosticsView_render sample_imports
        (recording_props True [completed_report, old_report])
        DiagnosticsView_constructor)) = [True]
   \<and> \<not> readyToRequestDiagnostics [completed_report, old_report]
   \<and> activate_button_of (DiagnosticsView_render sample_imports
        (recording_props True [completed_report, old_report])
        DiagnosticsView_constructor) = None
   \<and> readyToRequestDiagnostics [completed_report]
   \<and> map_option disabled (activate_button_of (DiagnosticsView_render sample_imports
        (recording_props True [completed_report]) DiagnosticsView_constructor))
      = Some False"
  using ready_iff_all_completed
    [of "[completed_report, old_report]"
        "recording_props True [completed_report, old_report]" sample_imports
        DiagnosticsView_constructor]
    ready_iff_all_completed
    [of "[completed_report]" "recording_props True [completed_report]" sample_imports
        DiagnosticsView_constructor]
  by (simp add: recording_props_def completed_report_def old_report_def
      DiagnosticsView_render_def dataSource_def filterByTimeScale_def sample_imports_def
      enumerate_eq_zip Let_def)

subsection \<open>Sorting\<close>

text \<open>
  C5. The table's sort handler is \<open>onSortingChange\<close> of the view. With a sort-change
  callback in the properties, a sort on any column title and direction first runs that
  callback with the label \<open>Diagnostics\<close>, the title and the direction, and then, when
  the callback has returned, sets the local sort state to that title and direction. A
  parent that records its calls sees exactly that one call; for the column \<open>status\<close> and
  the direction false the call is (\<open>Diagnostics\<close>, \<open>status\<close>, false) and the sort
  state becomes that column, descending.
\<close>

theorem sort_change_notifies_then_sets_state:
  "(onSortingChange props = Some f \<longrightarrow>
      DiagnosticsView_onSortingChange props \<lparr> ascending = a, columnTitle = t \<rparr> (st, w)
        = (case f ''Diagnostics'' t a w of
             Inl e \<Rightarrow> Inl e
           | Inr w' \<Rightarrow> Inr (\<lparr> sortSetting = \<lparr> ascending = a, columnTitle = t \<rparr> \<rparr>, w')))
   \<and> (hasData props \<longrightarrow>
        map_option onChangeSortSetting (table_of (DiagnosticsView_render imp props st))
          = Some (DiagnosticsView_onSortingChange props))
   \<and> DiagnosticsView_onSortingChange (recording_props has reports)
        \<lparr> ascending = a, columnTitle = t \<rparr> (st, calls)
      = Inr (\<lparr> sortSetting = \<lparr> ascending = a, columnTitle = t \<rparr> \<rparr>,
             calls @ [SortingChange ''Diagnostics'' t a])
   \<and> DiagnosticsView_onSortingChange (recording_props has reports)
        \<lparr> ascending = False, columnTitle = ''status'' \<rparr> (st, calls)
      = Inr (\<lparr> sortSetting = \<lparr> ascending = False, columnTitle = ''status'' \<rparr> \<rparr>,
             calls @ [SortingChange ''Diagnostics'' ''status'' False])"
  by (simp add: DiagnosticsView_onSortingChange_def DiagnosticsView_render_def Let_def
      recording_props_def record_call_def split: sum.split)

theorem sort_change_notifies_then_sets_state_witness:
  "onSortingChange (recording_props True [completed_report])
     = Some (\<lambda>n t a. record_call (SortingChange n t a))
   \<and> hasData (recording_props True [completed_report])
   \<and> DiagnosticsView_onSortingChange (recording_props True [completed_report])
        \<lparr> ascending = False, columnTitle = ''status'' \<rparr> (DiagnosticsView_constructor, [])
      = Inr (\<lparr> sortSetting = \<lparr> ascending = False, columnTitle = ''status'' \<rparr> \<rparr>,
             [SortingChange ''Diagnostics'' ''status'' False])"
  using sort_change_notifies_then_sets_state
    [of "recording_props True [completed_report]"
        "\<lambda>n t a. record_call (SortingChange n t a)" False "''status''"
        DiagnosticsView_constructor "[]" sample_imports True "[completed_report]" "[]"]
  by (simp add: recording_props_def record_call_def)

subsection \<open>Absent callbacks\<close>

text \<open>
  C9. An interaction whose optional callback is absent runs no callback and raises
  nothing: it returns normally and leaves the world as it was. This holds for the
  download click without a download callback, for the cancel click without a cancel
  callback, for a sort change without a sort-change callback (the local sort state is
  still set), and for the activation click, in either rendering mode, when the reference
  is absent or has no current target.
\<close>

theorem absent_callbacks_are_no_ops:
  "(onDownloadDiagnosticBundleClick props = None \<and> completed diagnostic \<longrightarrow>
      click_cell (cell (DiagnosticsView_columns imp props ! 2) diagnostic) w = Inr w)
   \<and> (onDiagnosticCancelRequestClick props = None \<and> \<not> completed diagnostic \<longrightarrow>
      click_cell (cell (DiagnosticsView_columns imp props ! 2) diagnostic) w = Inr w)
   \<and> (onSortingChange props = None \<longrightarrow>
      DiagnosticsView_onSortingChange props \<lparr> ascending = a, columnTitle = t \<rparr> (st, w)
        = Inr (\<lparr> sortSetting = \<lparr> ascending = a, columnTitle = t \<rparr> \<rparr>, w))
   \<and> (activateDiagnosticsRef props = None
        \<or> activateDiagnosticsRef props = Some \<lparr> current = None \<rparr> \<longrightarrow>
      activate_onClick props w = Inr w
      \<and> (\<forall>b. activate_button_of (DiagnosticsView_render imp props st) = Some b \<longrightarrow>
             onClick b w = Inr w))"
  by (auto simp add: DiagnosticsView_columns_def actions_cell_def download_onClick_def
      cancel_onClick_def DiagnosticsView_onSortingChange_def activate_onClick_def
      DiagnosticsView_render_def EmptyDiagnosticsView_def Let_def split: if_splits)

theorem absent_callbacks_are_no_ops_witness:
  "onDownloadDiagnosticBundleClick (silent_props True [completed_report, pending_report]) = None
   \<and> onDiagnosticCancelRequestClick (silent_props True [completed_report, pending_report]) = None
   \<and> onSortingChange (silent_props True [completed_report, pending_report]) = None
   \<and> activateDiagnosticsRef (silent_props True [completed_report, pending_report]) = None
   \<and> completed completed_report \<and> \<not> completed pending_report
   \<and> click_cell (cell (DiagnosticsView_columns sample_imports
        (silent_props True [completed_report, pending_report]) ! 2) completed_report) []
      = Inr []
   \<and> click_cell (cell (DiagnosticsView_columns sample_imports
        (silent_props True [completed_report, pending_report]) ! 2) pending_report) []
      = Inr []
   \<and> DiagnosticsView_onSortingChange (silent_props True [completed_report, pending_report])
        \<lparr> ascending = False, columnTitle = ''status'' \<rparr> (DiagnosticsView_constructor, [])
      = Inr (\<lparr> sortSetting = \<lparr> ascending = False, columnTitle = ''status'' \<rparr> \<rparr>, [])
   \<and> activate_onClick (silent_props True [completed_report, pending_report]) [] = Inr []"
  using absent_callbacks_are_no_ops
    [of "silent_props True [completed_report, pending_report]" completed_report
        sample_imports "[]" False "''status''" DiagnosticsView_constructor]
    absent_callbacks_are_no_ops
    [of "silent_props True [completed_report, pending_report]" pending_report
        sample_imports "[]" False "''status''" DiagnosticsView_constructor]
  by (simp add: silent_props_def recording_props_def completed_report_def pending_report_def)

subsection \<open>The rows of the table\<close>

text \<open>
  The data source, row by row: a row is the report at some index of the list the
  properties supply, with that index as its key, and its request instant is inside the
  window of the time scale.
\<close>

lemma dataSource_row:
  "row \<in> set (dataSource imp reports ts) \<longleftrightarrow>
     (\<exists>i < length reports. row = (reports ! i)\<lparr> key := Some i \<rparr>
        \<and> inWindow imp ts (requested_at (reports ! i)))"
proof
  assume "row \<in> set (dataSource imp reports ts)"
  then show "\<exists>i < length reports. row = (reports ! i)\<lparr> key := Some i \<rparr>
        \<and> inWindow imp ts (requested_at (reports ! i))"
    by (auto simp add: dataSource_def filterByTimeScale_def in_set_enumerate_eq)
next
  assume "\<exists>i < length reports. row = (reports ! i)\<lparr> key := Some i \<rparr>
        \<and> inWindow imp ts (requested_at (reports ! i))"
  then obtain i where i: "i < length reports" "row = (reports ! i)\<lparr> key := Some i \<rparr>"
    "inWindow imp ts (requested_at (reports ! i))" by blast
  from i(1) have "(i, reports ! i) \<in> set (enumerate 0 reports)"
    by (simp add: in_set_enumerate_eq)
  then have "row \<in> (\<lambda>(idx, r). r\<lparr> key := Some idx \<rparr>) ` set (enumerate 0 reports)"
    using i(2) by force
  with i show "row \<in> set (dataSource imp reports ts)"
    by (simp add: dataSource_def filterByTimeScale_def)
qed

lemma withoutKey_keyed: "withoutKey (r\<lparr> key := k \<rparr>) = withoutKey r"
  by (simp add: withoutKey_def)

lemma withoutKey_unkeyed: "key r = None \<Longrightarrow> withoutKey r = r"
  by (simp add: withoutKey_def)

lemma dataSource_subseq:
  "subseq (map withoutKey (dataSource imp reports ts)) (map withoutKey reports)"
proof -
  let ?keyed = "map (\<lambda>(idx, r). r\<lparr> key := Some idx \<rparr>) (enumerate 0 reports)"
  have "map withoutKey ?keyed = map (withoutKey \<circ> snd) (enumerate 0 reports)"
    by (simp add: withoutKey_keyed case_prod_unfold comp_def)
  also have "\<dots> = map withoutKey (map snd (enumerate 0 reports))"
    by (simp only: map_map)
  finally have same: "map withoutKey ?keyed = map withoutKey reports"
    by simp
  have "subseq (dataSource imp reports ts) ?keyed"
    by (simp add: dataSource_def filterByTimeScale_def)
  then have "subseq (map withoutKey (dataSource imp reports ts)) (map withoutKey ?keyed)"
    by (rule subseq_map)
  with same show ?thesis by simp
qed

lemma rows_of_render:
  "hasData props \<Longrightarrow>
     rows_of (DiagnosticsView_render imp props st)
       = dataSource imp (diagnosticsReports props) (currentScale props)"
  by (simp add: DiagnosticsView_render_def Let_def)

text \<open>
  C3. For every list of reports and every time scale, the rows of the rendered table
  are, apart from the key each row carries, a subsequence of the list the properties
  supply, in the same order; when the supplied reports carry no key, the rows without
  their keys are a subsequence of the supplied list itself. Every row is a supplied
  report whose request instant lies inside the window of the current time scale. The
  rows are computed from the properties alone: the local state of the view does not
  enter.
\<close>

theorem rendered_rows_are_time_filtered_input:
  assumes "hasData props"
  shows "subseq (map withoutKey (rows_of (DiagnosticsView_render imp props st)))
           (map withoutKey (diagnosticsReports props))
         \<and> ((\<forall>r \<in> set (diagnosticsReports props). key r = None) \<longrightarrow>
              subseq (map withoutKey (rows_of (DiagnosticsView_render imp props st)))
                (diagnosticsReports props))
         \<and> (\<forall>row \<in> set (rows_of (DiagnosticsView_render imp props st)).
              inWindow imp (currentScale props) (requested_at row)
              \<and> withoutKey row \<in> withoutKey ` set (diagnosticsReports props))
         \<and> rows_of (DiagnosticsView_render imp props st')
             = rows_of (DiagnosticsView_render imp props st)"
proof -
  let ?reports = "diagnosticsReports props"
  let ?rows = "dataSource imp ?reports (currentScale props)"
  have rows: "rows_of (DiagnosticsView_render imp props s) = ?rows" for s
    using assms by (rule rows_of_render)
  have sub: "subseq (map withoutKey ?rows) (map withoutKey ?reports)"
    by (rule dataSource_subseq)
  have plain: "subseq (map withoutKey ?rows) ?reports"
    if "\<forall>r \<in> set ?reports. key r = None"
  proof -
    from that have "map withoutKey ?reports = ?reports"
      by (simp add: map_idI withoutKey_unkeyed)
    with sub show ?thesis by simp
  qed
  have each: "inWindow imp (currentScale props) (requested_at row)
      \<and> withoutKey row \<in> withoutKey ` set ?reports" if "row \<in> set ?rows" for row
  proof -
    from that obtain i where i: "i < length ?reports"
      "row = (?reports ! i)\<lparr> key := Some i \<rparr>"
      "inWindow imp (currentScale props) (requested_at (?reports ! i))"
      unfolding dataSource_row by blast
    from i(1) have "?reports ! i \<in> set ?reports" by simp
    with i show ?thesis by (simp add: withoutKey_keyed)
  qed
  from sub plain each show ?thesis by (simp add: rows)
qed

theorem rendered_rows_are_time_filtered_input_witness:
  "hasData (recording_props True [completed_report, old_report, pending_report])
   \<and> map key (diagnosticsReports
         (recording_props True [completed_report, old_report, pending_report]))
       = [None, None, None]
   \<and> map withoutKey (rows_of (DiagnosticsView_render sample_imports
        (recording_props True [completed_report, old_report, pending_report])
        DiagnosticsView_constructor)) = [completed_report, pending_report]
   \<and> subseq [completed_report, pending_report]
        [completed_report, old_report, pending_report]"
proof -
  let ?props = "recording_props True [completed_report, old_report, pending_report]"
  have has: "hasData ?props"
    by (simp add: recording_props_def)
  have unkeyed: "\<forall>r \<in> set (diagnosticsReports ?props). key r = None"
    by (simp add: recording_props_def completed_report_def old_report_def
        pending_report_def)
  have rows: "map withoutKey (rows_of (DiagnosticsView_render sample_imports ?props
      DiagnosticsView_constructor)) = [completed_report, pending_report]"
    by (simp add: DiagnosticsView_render_def Let_def dataSource_def filterByTimeScale_def
        enumerate_eq_zip withoutKey_def recording_props_def sample_imports_def
        completed_report_def old_report_def pending_report_def)
  have reports: "diagnosticsReports ?props = [completed_report, old_report, pending_report]"
    by (simp add: recording_props_def)
  from rendered_rows_are_time_filtered_input [OF has, of sample_imports
      DiagnosticsView_constructor DiagnosticsView_constructor] unkeyed
  have "subseq (map withoutKey (rows_of (DiagnosticsView_render sample_imports ?props
      DiagnosticsView_constructor))) (diagnosticsReports ?props)"
    by blast
  moreover have "map key (diagnosticsReports ?props) = [None, None, None]"
    using unkeyed by (simp add: reports)
  ultimately show ?thesis using has rows reports by simp
qed

text \<open>
  C10. The key of a table row is the index of its report in the whole list the properties
  supply: the keys are given by the map over that list, before the time-scale filter
  runs, and a row is its report with the key set and nothing else changed. The keys of
  the rows shown need not be contiguous: of three reports with the middle one outside
  the window, the rows have the keys 0 and 2.
\<close>

theorem row_key_is_index_in_unfiltered_list:
  assumes "hasData props"
  shows "rows_of (DiagnosticsView_render imp props st)
           = filterByTimeScale imp
               (map (\<lambda>(idx, r). r\<lparr> key := Some idx \<rparr>)
                  (enumerate 0 (diagnosticsReports props)))
               (currentScale props)
         \<and> (\<forall>row \<in> set (rows_of (DiagnosticsView_render imp props st)).
              \<exists>i < length (diagnosticsReports props).
                key row = Some i \<and> row = (diagnosticsReports props ! i)\<lparr> key := Some i \<rparr>)
         \<and> map key (dataSource sample_imports
              [completed_report, old_report, pending_report] (0, 100)) = [Some 0, Some 2]"
proof -
  have rows: "rows_of (DiagnosticsView_render imp props st)
      = dataSource imp (diagnosticsReports props) (currentScale props)"
    using assms by (rule rows_of_render)
  have each: "\<exists>i < length (diagnosticsReports props).
      key row = Some i \<and> row = (diagnosticsReports props ! i)\<lparr> key := Some i \<rparr>"
    if "row \<in> set (dataSource imp (diagnosticsReports props) (currentScale props))" for row
    using that unfolding dataSource_row by auto
  have gap: "map key (dataSource sample_imports
      [completed_report, old_report, pending_report] (0, 100)) = [Some 0, Some 2]"
    by (simp add: dataSource_def filterByTimeScale_def enumerate_eq_zip sample_imports_def
        completed_report_def old_report_def pending_report_def)
  from each gap show ?thesis
    unfolding rows by (simp add: dataSource_def)
qed

theorem row_key_is_index_in_unfiltered_list_witness:
  "hasData (recording_props True [completed_report, old_report, pending_report])
   \<and> rows_of (DiagnosticsView_render sample_imports
        (recording_props True [completed_report, old_report, pending_report])
        DiagnosticsView_constructor)
      = [completed_report\<lparr> key := Some 0 \<rparr>, pending_report\<lparr> key := Some 2 \<rparr>]"
  using row_key_is_index_in_unfiltered_list
    [of "recording_props True [completed_report, old_report, pending_report]"
        sample_imports DiagnosticsView_constructor]
  by (simp add: recording_props_def filterByTimeScale_def enumerate_eq_zip
      sample_imports_def completed_report_def old_report_def pending_report_def)

subsection \<open>Row actions: cancel\<close>

text \<open>
  C4, as amended. For every object whose completion flag is not set, the Actions cell is
  a cancel control, and pressing it runs the cancel callback, when there is one, once and
  with the very object the cell was given. In the rendered table that object is a row of
  the data source: the report at some index of the supplied list, copied with the index
  as its key. It has the fields of the supplied report and differs from it whenever the
  supplied report carries no such key.
\<close>

theorem cancel_callback_receives_row:
  "(\<not> completed diagnostic \<longrightarrow>
      cell (DiagnosticsView_columns imp props ! 2) diagnostic
        = CancelRequestButton (cancel_onClick props diagnostic)
      \<and> (onDiagnosticCancelRequestClick props = Some f \<longrightarrow>
           click_cell (cell (DiagnosticsView_columns imp props ! 2) diagnostic) w
             = f diagnostic w))
   \<and> (hasData props \<longrightarrow>
        map_option tableColumns (table_of (DiagnosticsView_render imp props st))
          = Some (DiagnosticsView_columns imp props)
        \<and> (\<forall>row \<in> set (rows_of (DiagnosticsView_render imp props st)).
             \<exists>i < length (diagnosticsReports props).
               row = (diagnosticsReports props ! i)\<lparr> key := Some i \<rparr>
               \<and> withoutKey row = withoutKey (diagnosticsReports props ! i)
               \<and> (key (diagnosticsReports props ! i) = None \<longrightarrow>
                    row \<noteq> diagnosticsReports props ! i)))"
proof -
  have cell_part: "cell (DiagnosticsView_columns imp props ! 2) diagnostic
        = CancelRequestButton (cancel_onClick props diagnostic)
      \<and> (onDiagnosticCancelRequestClick props = Some f \<longrightarrow>
           click_cell (cell (DiagnosticsView_columns imp props ! 2) diagnostic) w
             = f diagnostic w)" if "\<not> completed diagnostic"
    using that by (simp add: DiagnosticsView_columns_def actions_cell_def cancel_onClick_def)
  have columns_part: "map_option tableColumns (table_of (DiagnosticsView_render imp props st))
          = Some (DiagnosticsView_columns imp props)" if "hasData props"
    using that by (simp add: DiagnosticsView_render_def Let_def)
  have row_part: "\<exists>i < length (diagnosticsReports props).
               row = (diagnosticsReports props ! i)\<lparr> key := Some i \<rparr>
               \<and> withoutKey row = withoutKey (diagnosticsReports props ! i)
               \<and> (key (diagnosticsReports props ! i) = None \<longrightarrow>
                    row \<noteq> diagnosticsReports props ! i)"
    if has: "hasData props" and row: "row \<in> set (rows_of (DiagnosticsView_render imp props st))"
    for row
  proof -
    from row have "row \<in> set (dataSource imp (diagnosticsReports props) (currentScale props))"
      by (simp add: rows_of_render [OF has])
    then obtain i where i: "i < length (diagnosticsReports props)"
      "row = (diagnosticsReports props ! i)\<lparr> key := Some i \<rparr>"
      unfolding dataSource_row by blast
    have "row \<noteq> diagnosticsReports props ! i" if "key (diagnosticsReports props ! i) = None"
    proof
      assume "row = diagnosticsReports props ! i"
      then have "key row = None" using that by simp
      with i(2) show False by simp
    qed
    with i show ?thesis by (auto simp add: withoutKey_keyed)
  qed
  from cell_part columns_part row_part show ?thesis by blast
qed

theorem cancel_callback_receives_row_witness:
  "\<not> completed (pending_report\<lparr> key := Some 1 \<rparr>)
   \<and> hasData (recording_props True [completed_report, pending_report])
   \<and> onDiagnosticCancelRequestClick (recording_props True [completed_report, pending_report])
       = Some (\<lambda>r. record_call (DiagnosticCancelRequestClick r))
   \<and> rows_of (DiagnosticsView_render sample_imports
        (recording_props True [completed_report, pending_report])
        DiagnosticsView_constructor)
      = [completed_report\<lparr> key := Some 0 \<rparr>, pending_report\<lparr> key := Some 1 \<rparr>]
   \<and> click_cell (cell (DiagnosticsView_columns sample_imports
        (recording_props True [completed_report, pending_report]) ! 2)
        (pending_report\<lparr> key := Some 1 \<rparr>)) []
      = Inr [DiagnosticCancelRequestClick (pending_report\<lparr> key := Some 1 \<rparr>)]"
  using cancel_callback_receives_row
    [of "pending_report\<lparr> key := Some 1 \<rparr>" sample_imports
        "recording_props True [completed_report, pending_report]"
        "\<lambda>r. record_call (DiagnosticCancelRequestClick r)" "[]"
        DiagnosticsView_constructor]
  by (simp add: recording_props_def record_call_def DiagnosticsView_render_def Let_def
      dataSource_def filterByTimeScale_def enumerate_eq_zip sample_imports_def
      DiagnosticsView_columns_def actions_cell_def cancel_onClick_def
      completed_report_def pending_report_def)

text \<open>
  The claim as first stated, that the callback receives the object of the supplied list,
  fails: for the single pending report \<open>pending_report\<close> the only row of the table is
  its copy with the key 0, and pressing the cancel control of that row hands the copy to
  the callback, not \<open>pending_report\<close>.
\<close>

theorem cancel_callback_exact_input_object_counterexample:
  "diagnosticsReports (recording_props True [pending_report]) = [pending_report]
   \<and> \<not> completed pending_report
   \<and> rows_of (DiagnosticsView_render sample_imports (recording_props True [pending_report])
        DiagnosticsView_constructor) = [pending_report\<lparr> key := Some 0 \<rparr>]
   \<and> click_cell (cell (DiagnosticsView_columns sample_imports
        (recording_props True [pending_report]) ! 2)
        (rows_of (DiagnosticsView_render sample_imports (recording_props True [pending_report])
           DiagnosticsView_constructor) ! 0)) []
      = Inr [DiagnosticCancelRequestClick (pending_report\<lparr> key := Some 0 \<rparr>)]
   \<and> click_cell (cell (DiagnosticsView_columns sample_imports
        (recording_props True [pending_report]) ! 2)
        (rows_of (DiagnosticsView_render sample_imports (recording_props True [pending_report])
           DiagnosticsView_constructor) ! 0)) []
      \<noteq> Inr [DiagnosticCancelRequestClick pending_report]"
  by (simp add: recording_props_def record_call_def DiagnosticsView_render_def Let_def
      dataSource_def filterByTimeScale_def enumerate_eq_zip sample_imports_def
      DiagnosticsView_columns_def actions_cell_def cancel_onClick_def pending_report_def)

end
